theory Spec2Isabelle
  imports Main "HOL-Library.Word"
begin

section \<open>Data model of \<open>leveldb_blockchain.cpp\<close>\<close>

type_synonym byte = "8 word"
type_synonym data_chunk = "byte list"
type_synonym hash_digest = "byte list"
type_synonym short_hash = "byte list"

text \<open>The members of \<open>error::\<close> that the file names; \<open>success\<close> is \<open>std::error_code()\<close>.\<close>

datatype error_code =
  success | operation_failed | duplicate | not_found
  | unsupported_payment_type | unspent_output | service_stopped

text \<open>Ways in which a member function does not return normally: a dereferenced
  null pointer, a failed \<open>BITCOIN_ASSERT\<close>, an iterator or a copy running past the
  end of its buffer.\<close>

datatype failure = null_dereference | assertion_failed | read_past_end | write_past_end

record output_point =
  op_hash :: hash_digest
  op_index :: "32 word"

datatype payment_type = pubkey | pubkey_hash | script_hash | multisig | non_standard

record payment_address =
  addr_type :: payment_type
  addr_version :: byte
  addr_hash :: short_hash

record block_header =
  version :: "32 word"
  previous_block_hash :: hash_digest
  merkle :: hash_digest
  timestamp :: "32 word"
  bits :: "32 word"
  nonce :: "32 word"

text \<open>A transaction is kept as its encoding; \<open>message::block\<close> is the header fields
  followed by the transactions.\<close>

type_synonym transaction = data_chunk

record block =
  header :: block_header
  transactions :: "transaction list"

datatype block_status = orphan | confirmed | rejected

record block_info =
  status :: block_status
  depth :: nat

datatype inventory_type = inv_error | inv_transaction | inv_block | inv_none

record inventory_vector =
  inv_type :: inventory_type
  inv_hash :: hash_digest

text \<open>\<open>block_detail\<close> is declared outside the file. \<open>do_store\<close> creates one per
  call and reads \<open>errc()\<close> and \<open>info()\<close> from it after the organizer ran; the
  organizer reaches the same object through the orphan pool, so the objects live in
  a heap (\<open>details\<close> below) and are named by their index.\<close>

record block_detail =
  actual :: block
  errc :: error_code
  info :: block_info

text \<open>\<open>protobuf::Block\<close>, the stored form of a block: the header fields and the
  transaction hashes as raw strings.\<close>

record proto_block =
  pb_header :: block_header
  pb_transactions :: "data_chunk list"

text \<open>What a member function does that its caller can observe, in order: the
  continuations it calls (a reorganize handler is named by a number), the calls it
  makes on the organizer and the database environment, and its table accesses.\<close>

datatype event =
  handle_start error_code
  | handle_store error_code block_info
  | handle_fetch_block_header error_code block
  | handle_fetch_block_transaction_hashes error_code "inventory_vector list"
  | handle_fetch_block_depth error_code nat
  | handle_fetch_last_depth error_code nat
  | handle_fetch_outputs error_code "output_point list"
  | handle_reorganize nat error_code nat "block list" "block list"
  | touch_file string
  | db_open string
  | db_get string data_chunk
  | organize_started
  | txn_checkpoint

text \<open>The closures handed to \<open>queue\<close>, which runs them later, one at a time.\<close>

datatype job =
  job_start string
  | job_do_store block
  | job_fetch_block_header_by_depth nat
  | job_fetch_blk_tx_hashes nat
  | job_do_fetch_outputs payment_address

text \<open>The result of \<open>leveldb::DB::Get\<close>: the value when the status is ok, a
  status for which \<open>IsNotFound\<close> holds, or any other status.\<close>

datatype get_status = status_ok data_chunk | status_not_found | status_other

text \<open>A table is what a read of it returns. The address table is read by this file
  byte for byte. The block tables are read only through \<open>leveldb_common\<close>, which
  is outside the file, and are kept as what it decodes from them.\<close>

type_synonym leveldb_db = "data_chunk \<Rightarrow> get_status"
type_synonym blocks_db = "nat \<Rightarrow> proto_block option"
type_synonym blocks_hash_db = "hash_digest \<Rightarrow> nat option"

text \<open>The part of the object that the organizer and the chain keeper work on: the
  five table handles (\<open>None\<close> is the empty \<open>unique_ptr\<close>), the heap of block
  details, the orphan pool's buffer and the subscribers of
  \<open>reorganize_subscriber_\<close>.\<close>

record chain_data =
  db_blocks_l1 :: "blocks_db option"
  db_blocks_hash_l1 :: "blocks_hash_db option"
  db_txs_l1 :: "leveldb_db option"
  db_spends_l1 :: "leveldb_db option"
  db_address_l1 :: "leveldb_db option"
  details :: "block_detail list"
  orphans_buffer :: "nat list"
  subscribers :: "nat list"

text \<open>The object; a member \<open>m_\<close> of the class is the field \<open>m\<close>. A pointer
  member is \<open>None\<close> while it is null; \<open>orphans\<close> carries the pool's capacity. \<open>flush_counter\<close> is the static local of
  \<open>do_store\<close>.\<close>

record leveldb_blockchain =
  strand :: "job list"
  flock :: "string option"
  common :: "unit option"
  chain :: "unit option"
  orphans :: "nat option"
  organize :: "unit option"
  env :: "unit option"
  flush_counter :: nat
  data :: chain_data

text \<open>The storage directory as \<open>initialize\<close> meets it: whether the lock on a
  path can be taken, and what \<open>leveldb::DB::Open\<close> gives for each table
  (\<open>None\<close> when the status is not ok).\<close>

record filesystem =
  try_lock :: "string \<Rightarrow> bool"
  open_blocks :: "string \<Rightarrow> blocks_db option"
  open_blocks_hash :: "string \<Rightarrow> blocks_hash_db option"
  open_txs :: "string \<Rightarrow> leveldb_db option"
  open_spends :: "string \<Rightarrow> leveldb_db option"
  open_address :: "string \<Rightarrow> leveldb_db option"

text \<open>Code that the file calls and does not contain, as parameters:
  \<open>BITCOIN_ASSERT\<close> (\<open>asserts\<close> says whether it is compiled in), the byte
  order of \<open>serializer\<close> and \<open>deserializer\<close>, the hash functions,
  \<open>leveldb_organizer::start\<close>, how the orphan pool stores a new entry, and the
  bytes an \<open>inventory_vector\<close> holds before its hash is written.\<close>

record externals =
  asserts :: bool
  write_short_hash :: "short_hash \<Rightarrow> data_chunk"
  read_hash :: "data_chunk \<Rightarrow> hash_digest"
  read_4_bytes :: "data_chunk \<Rightarrow> 32 word"
  hash_block_header :: "block_header \<Rightarrow> hash_digest"
  hash_transaction :: "transaction \<Rightarrow> hash_digest"
  organizer_start :: "chain_data \<Rightarrow> chain_data"
  pool_insert :: "nat \<Rightarrow> nat \<Rightarrow> nat list \<Rightarrow> nat list"
  fresh_hash :: hash_digest

section \<open>The strand\<close>

definition queue :: "job \<Rightarrow> leveldb_blockchain \<Rightarrow> leveldb_blockchain" where
  "queue j s = s\<lparr>strand := strand s @ [j]\<rparr>"

section \<open>\<open>start\<close>, \<open>initialize\<close> and \<open>stop\<close>\<close>

text \<open>\<open>initialize\<close> returns its boolean, the object and what it did. Each
  \<open>open_db\<close> that fails returns at once; the handles opened before it stay set.
  The three assignments after \<open>common\<close> are commented out in the source, so
  the members \<open>chain\<close>, \<open>orphans\<close> and \<open>organize\<close> are left as they were.\<close>

definition initialize ::
  "filesystem \<Rightarrow> leveldb_blockchain \<Rightarrow> string \<Rightarrow> bool \<times> leveldb_blockchain \<times> event list" where
  "initialize fs s prefix =
     (let lock_path = prefix @ ''/db-lock'';
          s0 = s\<lparr>flock := Some lock_path\<rparr>;
          e0 = [touch_file lock_path]
      in if \<not> try_lock fs lock_path then (False, s0, e0)
         else
     (case open_blocks fs (prefix @ ''/blocks'') of
        None \<Rightarrow> (False, s0, e0 @ [db_open ''blocks''])
      | Some d1 \<Rightarrow>
     (let s1 = s0\<lparr>data := (data s0)\<lparr>db_blocks_l1 := Some d1\<rparr>\<rparr>;
          e1 = e0 @ [db_open ''blocks'', db_open ''blocks_hash'']
      in case open_blocks_hash fs (prefix @ ''/blocks_hash'') of
        None \<Rightarrow> (False, s1, e1)
      | Some d2 \<Rightarrow>
     (let s2 = s1\<lparr>data := (data s1)\<lparr>db_blocks_hash_l1 := Some d2\<rparr>\<rparr>;
          e2 = e1 @ [db_open ''txs'']
      in case open_txs fs (prefix @ ''/txs'') of
        None \<Rightarrow> (False, s2, e2)
      | Some d3 \<Rightarrow>
     (let s3 = s2\<lparr>data := (data s2)\<lparr>db_txs_l1 := Some d3\<rparr>\<rparr>;
          e3 = e2 @ [db_open ''spends'']
      in case open_spends fs (prefix @ ''/spends'') of
        None \<Rightarrow> (False, s3, e3)
      | Some d4 \<Rightarrow>
     (let s4 = s3\<lparr>data := (data s3)\<lparr>db_spends_l1 := Some d4\<rparr>\<rparr>;
          e4 = e3 @ [db_open ''address'']
      in case open_address fs (prefix @ ''/address'') of
        None \<Rightarrow> (False, s4, e4)
      | Some d5 \<Rightarrow>
          (True,
           s4\<lparr>data := (data s4)\<lparr>db_address_l1 := Some d5\<rparr>, common := Some ()\<rparr>,
           e4)))))))"

definition start :: "leveldb_blockchain \<Rightarrow> string \<Rightarrow> leveldb_blockchain" where
  "start s prefix = queue (job_start prefix) s"

text \<open>The closure that \<open>start\<close> queues.\<close>

definition do_start ::
  "filesystem \<Rightarrow> leveldb_blockchain \<Rightarrow> string \<Rightarrow> leveldb_blockchain \<times> event list" where
  "do_start fs s prefix =
     (case initialize fs s prefix of
        (ok, s', evs) \<Rightarrow>
          (s', evs @ [handle_start (if ok then success else operation_failed)]))"

text \<open>Modelled from the spec: the subscriber class is outside the file. The spec's
  ReorgPublisher registers one-shot listeners; a relayed event is delivered to every
  registered listener once, and none stays registered.\<close>

definition subscribe :: "nat \<Rightarrow> nat list \<Rightarrow> nat list" where
  "subscribe h subs = subs @ [h]"

definition relay ::
  "nat list \<Rightarrow> error_code \<Rightarrow> nat \<Rightarrow> block list \<Rightarrow> block list \<Rightarrow> event list \<times> nat list" where
  "relay subs ec fork_depth added removed =
     (map (\<lambda>h. handle_reorganize h ec fork_depth added removed) subs, [])"

definition subscribe_reorganize :: "leveldb_blockchain \<Rightarrow> nat \<Rightarrow> leveldb_blockchain" where
  "subscribe_reorganize s handle_reorganize_id =
     s\<lparr>data := (data s)\<lparr>subscribers := subscribe handle_reorganize_id (subscribers (data s))\<rparr>\<rparr>"

definition stop :: "leveldb_blockchain \<Rightarrow> leveldb_blockchain \<times> event list" where
  "stop s =
     (case relay (subscribers (data s)) service_stopped 0 [] [] of
        (evs, subs) \<Rightarrow>
          (s\<lparr>data := (data s)\<lparr>subscribers := subs,
                                  db_blocks_l1 := None,
                                  db_blocks_hash_l1 := None,
                                  db_txs_l1 := None,
                                  db_spends_l1 := None,
                                  db_address_l1 := None\<rparr>\<rparr>,
           evs))"

section \<open>\<open>store\<close> and \<open>do_store\<close>\<close>

text \<open>A new \<open>block_detail\<close>, as a block that has just arrived: no error, orphan
  status, depth 0.\<close>

definition new_detail :: "block \<Rightarrow> block_detail" where
  "new_detail b = \<lparr>actual = b, errc = success, info = \<lparr>status = orphan, depth = 0\<rparr>\<rparr>"

text \<open>Modelled from the spec: \<open>chain_->find_index\<close> belongs to the chain keeper,
  which is outside the file. The spec's hash-to-depth table gives the depth of a
  confirmed hash; the source compares the result with \<open>-1\<close> for a hash that has
  none.\<close>

definition find_index :: "chain_data \<Rightarrow> hash_digest \<Rightarrow> failure + int" where
  "find_index c h =
     (case db_blocks_hash_l1 c of
        None \<Rightarrow> Inl null_dereference
      | Some t \<Rightarrow> Inr (case t h of None \<Rightarrow> - 1 | Some d \<Rightarrow> int d))"

text \<open>Modelled from the spec: the orphan pool is outside the file. Its \<open>add\<close>
  returns false if an entry with the same hash is already pending; otherwise it
  inserts and returns true. What a full pool does is left open by the spec and is
  the parameter \<open>pool_insert\<close>.\<close>

definition detail_hash :: "externals \<Rightarrow> chain_data \<Rightarrow> nat \<Rightarrow> hash_digest" where
  "detail_hash x c p = hash_block_header x (header (actual (details c ! p)))"

definition orphans_add :: "externals \<Rightarrow> nat \<Rightarrow> chain_data \<Rightarrow> nat \<Rightarrow> bool \<times> chain_data" where
  "orphans_add x cap c p =
     (if list_ex (\<lambda>q. detail_hash x c q = detail_hash x c p) (orphans_buffer c)
      then (False, c)
      else (True, c\<lparr>orphans_buffer := pool_insert x cap p (orphans_buffer c)\<rparr>))"

text \<open>The conversion of the \<open>int\<close> depth to the \<open>size_t\<close> of \<open>block_info\<close>.\<close>

definition size_t_of_int :: "int \<Rightarrow> nat" where
  "size_t_of_int i = nat (i mod 2 ^ 64)"

text \<open>\<open>do_store\<close>. \<open>stored_detail\<close> is the new heap object \<open>p\<close>. On the first
  return nothing but the handler call has happened and the object is released, so
  the state is the one the call started from. There is no \<open>return\<close> after the
  second \<open>handle_store\<close>. \<open>flush_counter\<close> never exceeds 2000, so the
  \<open>size_t\<close> does not wrap.\<close>

definition do_store ::
  "externals \<Rightarrow> leveldb_blockchain \<Rightarrow> block \<Rightarrow> failure + leveldb_blockchain \<times> event list" where
  "do_store x s stored_block =
     (let p = length (details (data s));
          c1 = (data s)\<lparr>details := details (data s) @ [new_detail stored_block]\<rparr>
      in case chain s of
           None \<Rightarrow> Inl null_dereference
         | Some _ \<Rightarrow>
     (case find_index c1 (hash_block_header x (header stored_block)) of
        Inl f \<Rightarrow> Inl f
      | Inr depth' \<Rightarrow>
          if depth' \<noteq> - 1
          then Inr (s, [handle_store duplicate
                          \<lparr>status = confirmed, depth = size_t_of_int depth'\<rparr>])
          else
     (case orphans s of
        None \<Rightarrow> Inl null_dereference
      | Some cap \<Rightarrow>
     (case orphans_add x cap c1 p of
        (added, c2) \<Rightarrow>
     (let e1 = (if \<not> added
                then [handle_store duplicate \<lparr>status = orphan, depth = 0\<rparr>]
                else [])
      in case organize s of
           None \<Rightarrow> Inl null_dereference
         | Some _ \<Rightarrow>
     (let c3 = organizer_start x c2;
          e2 = e1 @ [organize_started,
                     handle_store (errc (details c3 ! p)) (info (details c3 ! p))];
          n = flush_counter s + 1
      in if n = 2000
         then (case env s of
                 None \<Rightarrow> Inl null_dereference
               | Some _ \<Rightarrow>
                   Inr (s\<lparr>data := c3, flush_counter := 0\<rparr>, e2 @ [txn_checkpoint]))
         else Inr (s\<lparr>data := c3, flush_counter := n\<rparr>, e2)))))))"

definition store :: "leveldb_blockchain \<Rightarrow> block \<Rightarrow> leveldb_blockchain" where
  "store s stored_block = queue (job_do_store stored_block) s"

section \<open>Fetching a block by depth\<close>

text \<open>Modelled from the spec: \<open>leveldb_common::fetch_proto_block\<close> and the
  protobuf conversions are outside the file. The spec keeps a block record per depth
  and treats the encoding as an opaque codec that gives back what was stored or
  "not present"; \<open>None\<close> is the block for which \<open>IsInitialized\<close> is false.\<close>

definition fetch_proto_block :: "chain_data \<Rightarrow> nat \<Rightarrow> failure + proto_block option" where
  "fetch_proto_block c index =
     (case db_blocks_l1 c of None \<Rightarrow> Inl null_dereference | Some t \<Rightarrow> Inr (t index))"

definition block_to_protobuf :: "externals \<Rightarrow> block \<Rightarrow> proto_block" where
  "block_to_protobuf x b =
     \<lparr>pb_header = header b, pb_transactions = map (hash_transaction x) (transactions b)\<rparr>"

definition protobuf_to_block_header :: "proto_block \<Rightarrow> block" where
  "protobuf_to_block_header pb = \<lparr>header = pb_header pb, transactions = []\<rparr>"

text \<open>\<open>message::block()\<close>, value-initialised.\<close>

definition null_hash :: hash_digest where
  "null_hash = replicate 32 0"

definition empty_block :: block where
  "empty_block =
     \<lparr>header = \<lparr>version = 0, previous_block_hash = null_hash, merkle = null_hash,
                 timestamp = 0, bits = 0, nonce = 0\<rparr>,
      transactions = []\<rparr>"

definition fetch_block_header_impl :: "chain_data \<Rightarrow> nat \<Rightarrow> failure + block option" where
  "fetch_block_header_impl c index =
     (case fetch_proto_block c index of
        Inl f \<Rightarrow> Inl f
      | Inr None \<Rightarrow> Inr None
      | Inr (Some pb) \<Rightarrow> Inr (Some (protobuf_to_block_header pb)))"

definition fetch_block_header_by_depth ::
  "leveldb_blockchain \<Rightarrow> nat \<Rightarrow> failure + event list" where
  "fetch_block_header_by_depth s d =
     (case common s of
        None \<Rightarrow> Inl null_dereference
      | Some _ \<Rightarrow>
          (case fetch_block_header_impl (data s) d of
             Inl f \<Rightarrow> Inl f
           | Inr None \<Rightarrow> Inr [handle_fetch_block_header not_found empty_block]
           | Inr (Some serial_block) \<Rightarrow> Inr [handle_fetch_block_header success serial_block]))"

text \<open>The loop over \<open>proto_block.transactions()\<close>. The copy writes the raw string
  over the start of the 32 bytes of \<open>tx_inv.hash\<close>, which hold \<open>fresh_hash\<close>
  before.\<close>

fun tx_hashes_loop ::
  "externals \<Rightarrow> data_chunk list \<Rightarrow> inventory_vector list \<Rightarrow> failure + inventory_vector list" where
  "tx_hashes_loop x [] tx_hashes = Inr tx_hashes"
| "tx_hashes_loop x (raw_tx_hash # rest) tx_hashes =
     (if asserts x \<and> length raw_tx_hash \<noteq> 32 then Inl assertion_failed
      else if 32 < length raw_tx_hash then Inl write_past_end
      else tx_hashes_loop x rest
             (tx_hashes @ [\<lparr>inv_type = inv_transaction,
                             inv_hash = take 32 (raw_tx_hash @
                                          drop (length raw_tx_hash) (fresh_hash x))\<rparr>]))"

definition fetch_blk_tx_hashes_impl ::
  "externals \<Rightarrow> leveldb_blockchain \<Rightarrow> nat \<Rightarrow> failure + event list" where
  "fetch_blk_tx_hashes_impl x s index =
     (case common s of
        None \<Rightarrow> Inl null_dereference
      | Some _ \<Rightarrow>
          (case fetch_proto_block (data s) index of
             Inl f \<Rightarrow> Inl f
           | Inr None \<Rightarrow> Inr [handle_fetch_block_transaction_hashes not_found []]
           | Inr (Some pb) \<Rightarrow>
               (case tx_hashes_loop x (pb_transactions pb) [] of
                  Inl f \<Rightarrow> Inl f
                | Inr tx_hashes \<Rightarrow>
                    Inr [handle_fetch_block_transaction_hashes success tx_hashes])))"

section \<open>\<open>do_fetch_block_depth\<close> and \<open>do_fetch_last_depth\<close>\<close>

definition uint32_max :: "32 word" where
  "uint32_max = 0xFFFFFFFF"

text \<open>\<open>common->fetch_block_depth\<close> is not part of the file: its result for the
  hash is the parameter \<open>fetch_block_depth\<close>. The handler takes a \<open>size_t\<close>.\<close>

definition do_fetch_block_depth ::
  "(hash_digest \<Rightarrow> 32 word) \<Rightarrow> hash_digest \<Rightarrow> event list" where
  "do_fetch_block_depth fetch_block_depth block_hash =
     (let depth' = fetch_block_depth block_hash
      in if depth' = uint32_max then [handle_fetch_block_depth not_found 0]
         else [handle_fetch_block_depth success (unat depth')])"

definition do_fetch_last_depth :: "32 word \<Rightarrow> event list" where
  "do_fetch_last_depth find_last_block_depth =
     (let last_depth = find_last_block_depth
      in if last_depth = uint32_max then [handle_fetch_last_depth not_found 0]
         else [handle_fetch_last_depth success (unat last_depth)])"

section \<open>\<open>fetch_outputs\<close> and \<open>do_fetch_outputs\<close>\<close>

definition fetch_outputs ::
  "leveldb_blockchain \<Rightarrow> payment_address \<Rightarrow> leveldb_blockchain \<times> event list" where
  "fetch_outputs s address =
     (if addr_type address \<noteq> pubkey_hash
      then (s, [handle_fetch_outputs unsupported_payment_type []])
      else (queue (job_do_fetch_outputs address) s, []))"

definition outpoint_size :: nat where
  "outpoint_size = 32 + 4"

definition read_outpoint :: "externals \<Rightarrow> data_chunk \<Rightarrow> output_point" where
  "read_outpoint b raw_outpoint =
     \<lparr>op_hash = read_hash b (take 32 raw_outpoint),
      op_index = read_4_bytes b (take 4 (drop 32 raw_outpoint))\<rparr>"

text \<open>The loop \<open>for (it = begin; it != end; it += outpoint_size)\<close>, with \<open>it\<close>
  as an offset. Copying \<open>[it, it + outpoint_size)\<close> when fewer bytes are left
  reads past the end of the string.\<close>

function outpoints_loop ::
  "externals \<Rightarrow> data_chunk \<Rightarrow> nat \<Rightarrow> output_point list \<Rightarrow> failure + output_point list" where
  "outpoints_loop b outpoints it assoc_outs =
     (if it = length outpoints then Inr assoc_outs
      else if length outpoints < it + outpoint_size then Inl read_past_end
      else outpoints_loop b outpoints (it + outpoint_size)
             (assoc_outs @ [read_outpoint b (take outpoint_size (drop it outpoints))]))"
  by pat_completeness auto
termination
  by (relation "measure (\<lambda>(b, outpoints, it, assoc_outs). length outpoints - it)")
     (auto simp: outpoint_size_def)

definition do_fetch_outputs ::
  "externals \<Rightarrow> leveldb_blockchain \<Rightarrow> payment_address \<Rightarrow> failure + event list" where
  "do_fetch_outputs b s address =
     (case db_address_l1 (data s) of
        None \<Rightarrow> Inl null_dereference
      | Some db \<Rightarrow>
          (let raw_address = addr_version address # write_short_hash b (addr_hash address)
           in case db raw_address of
                status_not_found \<Rightarrow>
                  Inr [db_get ''address'' raw_address, handle_fetch_outputs not_found []]
              | status_other \<Rightarrow>
                  Inr [db_get ''address'' raw_address, handle_fetch_outputs operation_failed []]
              | status_ok outpoints \<Rightarrow>
                  if asserts b \<and> length outpoints mod outpoint_size \<noteq> 0
                  then Inl assertion_failed
                  else (case outpoints_loop b outpoints 0 [] of
                          Inl f \<Rightarrow> Inl f
                        | Inr assoc_outs \<Rightarrow>
                            Inr [db_get ''address'' raw_address,
                                 handle_fetch_outputs success assoc_outs])))"

section \<open>Concrete inputs\<close>

definition externals0 :: externals where
  "externals0 =
     \<lparr>asserts = True, write_short_hash = rev, read_hash = rev,
      read_4_bytes = (\<lambda>bs. foldr (\<lambda>x acc. ucast x + 256 * acc) bs 0),
      hash_block_header = (\<lambda>h. replicate 31 0 @ [ucast (nonce h)]),
      hash_transaction = (\<lambda>t. take 32 (t @ replicate 32 0)),
      organizer_start = (\<lambda>c. c),
      pool_insert = (\<lambda>cap p buf. buf @ [p]),
      fresh_hash = replicate 32 0\<rparr>"

definition chain0 :: chain_data where
  "chain0 =
     \<lparr>db_blocks_l1 = None, db_blocks_hash_l1 = None, db_txs_l1 = None,
      db_spends_l1 = None, db_address_l1 = None,
      details = [], orphans_buffer = [], subscribers = []\<rparr>"

text \<open>The object as the constructor leaves it.\<close>

definition facade0 :: leveldb_blockchain where
  "facade0 =
     \<lparr>strand = [], flock = None, common = None, chain = None, orphans = None,
      organize = None, env = None, flush_counter = 0, data = chain0\<rparr>"

definition address0 :: payment_address where
  "address0 = \<lparr>addr_type = pubkey_hash, addr_version = 0, addr_hash = [1, 2, 3]\<rparr>"

definition two_outpoints :: data_chunk where
  "two_outpoints = replicate 31 0 @ [9] @ [5, 0, 0, 0] @ replicate 31 0 @ [8] @ [7, 1, 0, 0]"

definition address_db0 :: "data_chunk \<Rightarrow> leveldb_db" where
  "address_db0 v = (\<lambda>k. if k = [0, 3, 2, 1] then status_ok v else status_not_found)"

definition facade_address :: "data_chunk \<Rightarrow> leveldb_blockchain" where
  "facade_address v = facade0\<lparr>data := chain0\<lparr>db_address_l1 := Some (address_db0 v)\<rparr>\<rparr>"

text \<open>A directory in which every table opens; the lock is free or held.\<close>

definition filesystem0 :: "bool \<Rightarrow> filesystem" where
  "filesystem0 lockable =
     \<lparr>try_lock = (\<lambda>p. lockable),
      open_blocks = (\<lambda>p. Some (\<lambda>d. None)),
      open_blocks_hash = (\<lambda>p. Some (\<lambda>h. None)),
      open_txs = (\<lambda>p. Some (\<lambda>k. status_not_found)),
      open_spends = (\<lambda>p. Some (\<lambda>k. status_not_found)),
      open_address = (\<lambda>p. Some (\<lambda>k. status_not_found))\<rparr>"

definition header0 :: "nat \<Rightarrow> block_header" where
  "header0 k = \<lparr>version = 1, previous_block_hash = replicate 32 255, merkle = replicate 32 0,
                 timestamp = 0, bits = 0, nonce = of_nat k\<rparr>"

definition block0 :: "nat \<Rightarrow> block" where
  "block0 k = \<lparr>header = header0 k, transactions = []\<rparr>"

text \<open>A hash table in which block 7 is confirmed at depth 0, and a directory whose
  \<open>blocks_hash\<close> table is that one.\<close>

definition genesis_index :: blocks_hash_db where
  "genesis_index = (\<lambda>h. if h = hash_block_header externals0 (header0 7) then Some 0 else None)"

definition filesystem_genesis :: filesystem where
  "filesystem_genesis = (filesystem0 True)\<lparr>open_blocks_hash := (\<lambda>p. Some genesis_index)\<rparr>"

text \<open>A directory whose lock is free and whose \<open>blocks\<close> table does not open.\<close>

definition filesystem_no_blocks :: filesystem where
  "filesystem_no_blocks = (filesystem0 True)\<lparr>open_blocks := (\<lambda>p. None)\<rparr>"

section \<open>Theorems\<close>

declare outpoints_loop.simps [simp del]

lemma upt_Suc_shift: "[0..<Suc m] = 0 # map Suc [0..<m]"
  by (simp only: map_Suc_upt upt_conv_Cons [OF zero_less_Suc])

lemma step_le:
  assumes "it \<le> (n::nat)" "(n - it) mod s = 0" "it \<noteq> n"
  shows "it + s \<le> n"
proof -
  have "s dvd n - it" using assms(2) by (simp add: mod_eq_0_iff_dvd)
  moreover have "0 < n - it" using assms(1,3) by simp
  ultimately have "s \<le> n - it" by (rule dvd_imp_le)
  then show ?thesis using assms(1) by simp
qed

lemma step_mod:
  assumes "it + s \<le> (n::nat)"
  shows "(n - (it + s)) mod s = (n - it) mod s"
proof -
  have "s \<le> n - it" using assms by simp
  then have "(n - it) mod s = (n - it - s) mod s" by (rule le_mod_geq)
  then show ?thesis by (simp add: diff_diff_left)
qed

lemma step_div:
  assumes "it + s \<le> (n::nat)" "0 < s"
  shows "(n - it) div s = Suc ((n - (it + s)) div s)"
proof -
  have "s \<le> n - it" using assms by simp
  with assms(2) have "(n - it) div s = Suc ((n - it - s) div s)" by (rule le_div_geq)
  then show ?thesis by (simp add: diff_diff_left)
qed

lemma outpoints_loop_bad:
  "it \<le> length v \<Longrightarrow> (length v - it) mod outpoint_size \<noteq> 0 \<Longrightarrow>
   outpoints_loop b v it acc = Inl read_past_end"
proof (induction b v it acc rule: outpoints_loop.induct)
  case (1 b outpoints it assoc_outs)
  have ne: "it \<noteq> length outpoints" using "1.prems" by auto
  show ?case
  proof (cases "length outpoints < it + outpoint_size")
    case True
    with ne show ?thesis
      by (subst outpoints_loop.simps) simp
  next
    case False
    then have le: "it + outpoint_size \<le> length outpoints" by simp
    have "(length outpoints - (it + outpoint_size)) mod outpoint_size \<noteq> 0"
      using "1.prems"(2) by (simp only: step_mod [OF le] not_False_eq_True)
    with le have "outpoints_loop b outpoints (it + outpoint_size)
        (assoc_outs @ [read_outpoint b (take outpoint_size (drop it outpoints))]) = Inl read_past_end"
      by (rule "1.IH" [OF ne False])
    with ne False show ?thesis
      by (subst outpoints_loop.simps) simp
  qed
qed

lemma outpoints_loop_good:
  "it \<le> length v \<Longrightarrow> (length v - it) mod outpoint_size = 0 \<Longrightarrow>
   outpoints_loop b v it acc =
     Inr (acc @ map (\<lambda>k. read_outpoint b (take outpoint_size (drop (it + outpoint_size * k) v)))
                 [0..<(length v - it) div outpoint_size])"
proof (induction b v it acc rule: outpoints_loop.induct)
  case (1 b outpoints it assoc_outs)
  show ?case
  proof (cases "it = length outpoints")
    case True
    then show ?thesis by (subst outpoints_loop.simps) simp
  next
    case False
    have le: "it + outpoint_size \<le> length outpoints"
      using "1.prems" False by (rule step_le)
    then have nlt: "\<not> length outpoints < it + outpoint_size" by simp
    have m: "(length outpoints - (it + outpoint_size)) mod outpoint_size = 0"
      using "1.prems"(2) by (simp only: step_mod [OF le])
    have d: "(length outpoints - it) div outpoint_size
               = Suc ((length outpoints - (it + outpoint_size)) div outpoint_size)"
      using le by (rule step_div) (simp add: outpoint_size_def)
    have "outpoints_loop b outpoints it assoc_outs =
          outpoints_loop b outpoints (it + outpoint_size)
            (assoc_outs @ [read_outpoint b (take outpoint_size (drop it outpoints))])"
      using False nlt by (subst outpoints_loop.simps) simp
    also have "\<dots> = Inr ((assoc_outs @ [read_outpoint b (take outpoint_size (drop it outpoints))])
         @ map (\<lambda>k. read_outpoint b (take outpoint_size (drop (it + outpoint_size + outpoint_size * k) outpoints)))
                 [0..<(length outpoints - (it + outpoint_size)) div outpoint_size])"
      using le m by (rule "1.IH" [OF False nlt])
    finally show ?thesis
      by (simp only: d upt_Suc_shift list.map map_map comp_def mult_Suc_right mult_0_right
            add_0_right append_assoc append_Cons append_Nil add.assoc)
  qed
qed


text \<open>C9: the record size is 36 bytes. When the value read from the address table is
  not a multiple of 36 bytes long, \<open>do_fetch_outputs\<close> ends in an assertion failure
  (or, with assertions compiled out, runs past the end of the value) and calls no
  handler. When it is, the loop returns without reading past the end and hands the
  handler the records in stored order, one output point per 36 bytes.\<close>

theorem fetch_outputs_records:
  assumes "db_address_l1 (data s) = Some db"
    and "db (addr_version a # write_short_hash b (addr_hash a)) = status_ok v"
  shows "outpoint_size = 36
    \<and> (length v mod outpoint_size \<noteq> 0 \<longrightarrow>
         do_fetch_outputs b s a = Inl (if asserts b then assertion_failed else read_past_end))
    \<and> (length v mod outpoint_size = 0 \<longrightarrow>
         do_fetch_outputs b s a =
           Inr [db_get ''address'' (addr_version a # write_short_hash b (addr_hash a)),
                handle_fetch_outputs success
                  (map (\<lambda>k. read_outpoint b (take outpoint_size (drop (outpoint_size * k) v)))
                       [0..<length v div outpoint_size])])"
proof (intro conjI impI)
  show "outpoint_size = 36" by (simp add: outpoint_size_def)
next
  assume bad: "length v mod outpoint_size \<noteq> 0"
  then have "outpoints_loop b v 0 [] = Inl read_past_end"
    by (simp add: outpoints_loop_bad)
  with assms bad show "do_fetch_outputs b s a = Inl (if asserts b then assertion_failed else read_past_end)"
    by (simp add: do_fetch_outputs_def)
next
  assume good: "length v mod outpoint_size = 0"
  then have "outpoints_loop b v 0 [] =
     Inr (map (\<lambda>k. read_outpoint b (take outpoint_size (drop (outpoint_size * k) v)))
              [0..<length v div outpoint_size])"
    using outpoints_loop_good [of 0 v b "[]"] by simp
  with assms good show "do_fetch_outputs b s a =
           Inr [db_get ''address'' (addr_version a # write_short_hash b (addr_hash a)),
                handle_fetch_outputs success
                  (map (\<lambda>k. read_outpoint b (take outpoint_size (drop (outpoint_size * k) v)))
                       [0..<length v div outpoint_size])]"
    by (simp add: do_fetch_outputs_def)
qed

lemma two_outpoints_length: "length two_outpoints = 72"
  by (simp add: two_outpoints_def)

lemma upt_2: "[0..<2] = [0, Suc 0]"
  by (simp add: upt_rec)

theorem fetch_outputs_records_witness:
  "do_fetch_outputs externals0 (facade_address two_outpoints) address0 =
     Inr [db_get ''address'' [0, 3, 2, 1],
          handle_fetch_outputs success
            [\<lparr>op_hash = 9 # replicate 31 0, op_index = 5\<rparr>,
             \<lparr>op_hash = 8 # replicate 31 0, op_index = 263\<rparr>]]
   \<and> do_fetch_outputs externals0 (facade_address (replicate 37 0)) address0 = Inl assertion_failed"
proof -
  have key: "addr_version address0 # write_short_hash externals0 (addr_hash address0) = [0, 3, 2, 1]"
    by (simp add: address0_def externals0_def)
  have a: "db_address_l1 (data (facade_address v)) = Some (address_db0 v)" for v
    by (simp add: facade_address_def)
  have b: "address_db0 v
             (addr_version address0 # write_short_hash externals0 (addr_hash address0)) = status_ok v" for v
    by (simp add: key address_db0_def)
  have r1: "read_outpoint externals0 (take 36 two_outpoints) = \<lparr>op_hash = 9 # replicate 31 0, op_index = 5\<rparr>"
    by (simp add: read_outpoint_def two_outpoints_def externals0_def)
  have r2: "read_outpoint externals0 (take 36 (drop 36 two_outpoints)) = \<lparr>op_hash = 8 # replicate 31 0, op_index = 263\<rparr>"
    by (simp add: read_outpoint_def two_outpoints_def externals0_def)
  have t1: "do_fetch_outputs externals0 (facade_address two_outpoints) address0 =
     Inr [db_get ''address'' [0, 3, 2, 1],
          handle_fetch_outputs success
            [\<lparr>op_hash = 9 # replicate 31 0, op_index = 5\<rparr>,
             \<lparr>op_hash = 8 # replicate 31 0, op_index = 263\<rparr>]]"
    using fetch_outputs_records [OF a b, of two_outpoints, THEN conjunct2, THEN conjunct2] r1 r2
    by (simp add: two_outpoints_length key upt_2 outpoint_size_def)
  have t2: "do_fetch_outputs externals0 (facade_address (replicate 37 0)) address0 = Inl assertion_failed"
    using fetch_outputs_records [OF a b, of "replicate 37 0", THEN conjunct2, THEN conjunct1]
    by (simp add: externals0_def outpoint_size_def)
  from t1 t2 show ?thesis by simp
qed

text \<open>C5: for an address whose type is not \<open>pubkey_hash\<close>, \<open>fetch_outputs\<close>
  calls its handler at once with \<open>unsupported_payment_type\<close> and the empty list,
  queues nothing and reads no table: the object is unchanged. For a
  \<open>pubkey_hash\<close> address it calls nothing and queues \<open>do_fetch_outputs\<close>.\<close>

theorem fetch_outputs_unsupported:
  "(addr_type a \<noteq> pubkey_hash \<longrightarrow>
      fetch_outputs s a = (s, [handle_fetch_outputs unsupported_payment_type []]))
   \<and> (addr_type a = pubkey_hash \<longrightarrow>
      fetch_outputs s a = (s\<lparr>strand := strand s @ [job_do_fetch_outputs a]\<rparr>, []))"
  by (simp add: fetch_outputs_def queue_def)

theorem fetch_outputs_unsupported_witness:
  "fetch_outputs (facade_address []) (address0\<lparr>addr_type := script_hash\<rparr>)
     = (facade_address [], [handle_fetch_outputs unsupported_payment_type []])
   \<and> strand (fst (fetch_outputs (facade_address []) address0)) = [job_do_fetch_outputs address0]"
  using fetch_outputs_unsupported [of "address0\<lparr>addr_type := script_hash\<rparr>" "facade_address []"]
    fetch_outputs_unsupported [of address0 "facade_address []"]
  by (simp add: address0_def facade_address_def facade0_def)


lemma unat_uint32_max: "unat uint32_max = 2 ^ 32 - 1"
  by (simp add: uint32_max_def)

lemma unat_eq_uint32_max: "unat (d :: 32 word) = 4294967295 \<Longrightarrow> d = uint32_max"
proof -
  assume "unat d = 4294967295"
  then have "unat d = unat uint32_max" by (simp add: uint32_max_def)
  then show ?thesis by (simp only: word_unat_eq_iff)
qed

text \<open>C10: both operations treat the largest 32-bit value of the underlying lookup as
  "not found": the handler is then called once with \<open>not_found\<close> and depth 0, and
  neither operation ever reports \<open>2^32 - 1\<close> as a depth with \<open>success\<close>.\<close>

theorem depth_sentinel_not_found:
  "(f h = uint32_max \<longrightarrow> do_fetch_block_depth f h = [handle_fetch_block_depth not_found 0])
   \<and> (l = uint32_max \<longrightarrow> do_fetch_last_depth l = [handle_fetch_last_depth not_found 0])
   \<and> handle_fetch_block_depth success (2 ^ 32 - 1) \<notin> set (do_fetch_block_depth f h)
   \<and> handle_fetch_last_depth success (2 ^ 32 - 1) \<notin> set (do_fetch_last_depth l)"
  by (auto simp: do_fetch_block_depth_def do_fetch_last_depth_def Let_def
      dest: unat_eq_uint32_max)

theorem depth_sentinel_not_found_witness:
  "do_fetch_block_depth (\<lambda>_. 0xFFFFFFFF) [] = [handle_fetch_block_depth not_found 0]
   \<and> do_fetch_last_depth 0xFFFFFFFF = [handle_fetch_last_depth not_found 0]
   \<and> do_fetch_block_depth (\<lambda>_. 7) [] = [handle_fetch_block_depth success 7]"
  using depth_sentinel_not_found [of "\<lambda>_. 0xFFFFFFFF" "[]" "0xFFFFFFFF"]
  by (simp add: uint32_max_def do_fetch_block_depth_def)

lemma initialize_result:
  "fst (initialize fs s prefix) \<longleftrightarrow>
     try_lock fs (prefix @ ''/db-lock'')
     \<and> open_blocks fs (prefix @ ''/blocks'') \<noteq> None
     \<and> open_blocks_hash fs (prefix @ ''/blocks_hash'') \<noteq> None
     \<and> open_txs fs (prefix @ ''/txs'') \<noteq> None
     \<and> open_spends fs (prefix @ ''/spends'') \<noteq> None
     \<and> open_address fs (prefix @ ''/address'') \<noteq> None"
  by (simp add: initialize_def Let_def split: option.split)

lemma initialize_no_handler:
  "handle_start ec \<notin> set (snd (snd (initialize fs s prefix)))"
  by (simp add: initialize_def Let_def split: option.split)

lemma initialize_opened:
  assumes "fst (initialize fs s prefix)"
  shows "db_blocks_l1 (data (fst (snd (initialize fs s prefix)))) = open_blocks fs (prefix @ ''/blocks'')"
    and "db_blocks_hash_l1 (data (fst (snd (initialize fs s prefix)))) = open_blocks_hash fs (prefix @ ''/blocks_hash'')"
    and "db_txs_l1 (data (fst (snd (initialize fs s prefix)))) = open_txs fs (prefix @ ''/txs'')"
    and "db_spends_l1 (data (fst (snd (initialize fs s prefix)))) = open_spends fs (prefix @ ''/spends'')"
    and "db_address_l1 (data (fst (snd (initialize fs s prefix)))) = open_address fs (prefix @ ''/address'')"
    and "snd (snd (initialize fs s prefix)) =
           [touch_file (prefix @ ''/db-lock''), db_open ''blocks'', db_open ''blocks_hash'',
            db_open ''txs'', db_open ''spends'', db_open ''address'']"
  using assms by (simp_all add: initialize_def Let_def split: option.splits if_splits)

lemma do_start_initialize:
  "do_start fs s prefix =
     (fst (snd (initialize fs s prefix)),
      snd (snd (initialize fs s prefix))
        @ [handle_start (if fst (initialize fs s prefix) then success else operation_failed)])"
  by (simp add: do_start_def split: prod.split)

text \<open>C7: when the lock on the directory cannot be taken, the closure queued by
  \<open>start\<close> opens no table and calls the start handler once with
  \<open>operation_failed\<close>; nothing is queued again. The handler is called with
  \<open>success\<close> exactly when the lock was taken and each of the five
  \<open>leveldb::DB::Open\<close> calls succeeded; the five handles are then the databases
  those calls returned, and the five opens come before the call. In every other
  case the handler is called once, last, with \<open>operation_failed\<close>.\<close>

theorem start_lock_held:
  "(\<not> try_lock fs (prefix @ ''/db-lock'') \<longrightarrow>
      do_start fs s prefix =
        (s\<lparr>flock := Some (prefix @ ''/db-lock'')\<rparr>,
         [touch_file (prefix @ ''/db-lock''), handle_start operation_failed]))
   \<and> (handle_start success \<in> set (snd (do_start fs s prefix)) \<longleftrightarrow>
        try_lock fs (prefix @ ''/db-lock'')
        \<and> open_blocks fs (prefix @ ''/blocks'') \<noteq> None
        \<and> open_blocks_hash fs (prefix @ ''/blocks_hash'') \<noteq> None
        \<and> open_txs fs (prefix @ ''/txs'') \<noteq> None
        \<and> open_spends fs (prefix @ ''/spends'') \<noteq> None
        \<and> open_address fs (prefix @ ''/address'') \<noteq> None)
   \<and> (handle_start success \<in> set (snd (do_start fs s prefix)) \<longrightarrow>
        db_blocks_l1 (data (fst (do_start fs s prefix))) = open_blocks fs (prefix @ ''/blocks'')
        \<and> db_blocks_hash_l1 (data (fst (do_start fs s prefix)))
            = open_blocks_hash fs (prefix @ ''/blocks_hash'')
        \<and> db_txs_l1 (data (fst (do_start fs s prefix))) = open_txs fs (prefix @ ''/txs'')
        \<and> db_spends_l1 (data (fst (do_start fs s prefix))) = open_spends fs (prefix @ ''/spends'')
        \<and> db_address_l1 (data (fst (do_start fs s prefix)))
            = open_address fs (prefix @ ''/address'')
        \<and> snd (do_start fs s prefix) =
            [touch_file (prefix @ ''/db-lock''), db_open ''blocks'', db_open ''blocks_hash'',
             db_open ''txs'', db_open ''spends'', db_open ''address'', handle_start success])
   \<and> (handle_start success \<notin> set (snd (do_start fs s prefix)) \<longrightarrow>
        (\<exists>evs. snd (do_start fs s prefix) = evs @ [handle_start operation_failed]
               \<and> (\<forall>ec. handle_start ec \<notin> set evs)))"
proof (intro conjI)
  show "\<not> try_lock fs (prefix @ ''/db-lock'') \<longrightarrow>
      do_start fs s prefix =
        (s\<lparr>flock := Some (prefix @ ''/db-lock'')\<rparr>,
         [touch_file (prefix @ ''/db-lock''), handle_start operation_failed])"
    by (simp add: do_start_def initialize_def Let_def)
next
  have ok: "handle_start success \<in> set (snd (do_start fs s prefix)) \<longleftrightarrow> fst (initialize fs s prefix)"
    by (simp add: do_start_initialize initialize_no_handler)
  show "handle_start success \<in> set (snd (do_start fs s prefix)) \<longleftrightarrow>
        try_lock fs (prefix @ ''/db-lock'')
        \<and> open_blocks fs (prefix @ ''/blocks'') \<noteq> None
        \<and> open_blocks_hash fs (prefix @ ''/blocks_hash'') \<noteq> None
        \<and> open_txs fs (prefix @ ''/txs'') \<noteq> None
        \<and> open_spends fs (prefix @ ''/spends'') \<noteq> None
        \<and> open_address fs (prefix @ ''/address'') \<noteq> None"
    by (simp only: ok initialize_result)
  show "handle_start success \<in> set (snd (do_start fs s prefix)) \<longrightarrow>
        db_blocks_l1 (data (fst (do_start fs s prefix))) = open_blocks fs (prefix @ ''/blocks'')
        \<and> db_blocks_hash_l1 (data (fst (do_start fs s prefix)))
            = open_blocks_hash fs (prefix @ ''/blocks_hash'')
        \<and> db_txs_l1 (data (fst (do_start fs s prefix))) = open_txs fs (prefix @ ''/txs'')
        \<and> db_spends_l1 (data (fst (do_start fs s prefix))) = open_spends fs (prefix @ ''/spends'')
        \<and> db_address_l1 (data (fst (do_start fs s prefix)))
            = open_address fs (prefix @ ''/address'')
        \<and> snd (do_start fs s prefix) =
            [touch_file (prefix @ ''/db-lock''), db_open ''blocks'', db_open ''blocks_hash'',
             db_open ''txs'', db_open ''spends'', db_open ''address'', handle_start success]"
  proof
    assume "handle_start success \<in> set (snd (do_start fs s prefix))"
    then have i: "fst (initialize fs s prefix)" by (simp add: ok)
    show "db_blocks_l1 (data (fst (do_start fs s prefix))) = open_blocks fs (prefix @ ''/blocks'')
        \<and> db_blocks_hash_l1 (data (fst (do_start fs s prefix)))
            = open_blocks_hash fs (prefix @ ''/blocks_hash'')
        \<and> db_txs_l1 (data (fst (do_start fs s prefix))) = open_txs fs (prefix @ ''/txs'')
        \<and> db_spends_l1 (data (fst (do_start fs s prefix))) = open_spends fs (prefix @ ''/spends'')
        \<and> db_address_l1 (data (fst (do_start fs s prefix)))
            = open_address fs (prefix @ ''/address'')
        \<and> snd (do_start fs s prefix) =
            [touch_file (prefix @ ''/db-lock''), db_open ''blocks'', db_open ''blocks_hash'',
             db_open ''txs'', db_open ''spends'', db_open ''address'', handle_start success]"
      using i by (simp add: do_start_initialize initialize_opened)
  qed
  show "handle_start success \<notin> set (snd (do_start fs s prefix)) \<longrightarrow>
        (\<exists>evs. snd (do_start fs s prefix) = evs @ [handle_start operation_failed]
               \<and> (\<forall>ec. handle_start ec \<notin> set evs))"
  proof
    assume "handle_start success \<notin> set (snd (do_start fs s prefix))"
    then have "\<not> fst (initialize fs s prefix)" by (simp add: ok)
    then have "snd (do_start fs s prefix) =
        snd (snd (initialize fs s prefix)) @ [handle_start operation_failed]"
      by (simp add: do_start_initialize)
    then show "\<exists>evs. snd (do_start fs s prefix) = evs @ [handle_start operation_failed]
               \<and> (\<forall>ec. handle_start ec \<notin> set evs)"
      using initialize_no_handler by blast
  qed
qed

theorem start_lock_held_witness:
  "do_start (filesystem0 False) facade0 ''db'' =
     (facade0\<lparr>flock := Some ''db/db-lock''\<rparr>, [touch_file ''db/db-lock'', handle_start operation_failed])
   \<and> snd (do_start (filesystem0 True) facade0 ''db'') =
       [touch_file ''db/db-lock'', db_open ''blocks'', db_open ''blocks_hash'',
        db_open ''txs'', db_open ''spends'', db_open ''address'', handle_start success]
   \<and> db_blocks_hash_l1 (data (fst (do_start filesystem_genesis facade0 ''db''))) = Some genesis_index
   \<and> handle_start success \<notin> set (snd (do_start filesystem_no_blocks facade0 ''db''))"
proof -
  have a: "\<not> try_lock (filesystem0 False) (''db'' @ ''/db-lock'')"
    by (simp add: filesystem0_def)
  have b: "try_lock (filesystem0 True) (''db'' @ ''/db-lock'')
        \<and> open_blocks (filesystem0 True) (''db'' @ ''/blocks'') \<noteq> None
        \<and> open_blocks_hash (filesystem0 True) (''db'' @ ''/blocks_hash'') \<noteq> None
        \<and> open_txs (filesystem0 True) (''db'' @ ''/txs'') \<noteq> None
        \<and> open_spends (filesystem0 True) (''db'' @ ''/spends'') \<noteq> None
        \<and> open_address (filesystem0 True) (''db'' @ ''/address'') \<noteq> None"
    by (simp add: filesystem0_def)
  have c: "try_lock filesystem_genesis (''db'' @ ''/db-lock'')
        \<and> open_blocks filesystem_genesis (''db'' @ ''/blocks'') \<noteq> None
        \<and> open_blocks_hash filesystem_genesis (''db'' @ ''/blocks_hash'') = Some genesis_index
        \<and> open_txs filesystem_genesis (''db'' @ ''/txs'') \<noteq> None
        \<and> open_spends filesystem_genesis (''db'' @ ''/spends'') \<noteq> None
        \<and> open_address filesystem_genesis (''db'' @ ''/address'') \<noteq> None"
    by (simp add: filesystem_genesis_def filesystem0_def)
  have d: "open_blocks filesystem_no_blocks (''db'' @ ''/blocks'') = None"
    by (simp add: filesystem_no_blocks_def)
  have t1: "do_start (filesystem0 False) facade0 ''db'' =
     (facade0\<lparr>flock := Some ''db/db-lock''\<rparr>, [touch_file ''db/db-lock'', handle_start operation_failed])"
    using start_lock_held [of "filesystem0 False" "''db''" facade0] a by simp
  have t2: "snd (do_start (filesystem0 True) facade0 ''db'') =
       [touch_file ''db/db-lock'', db_open ''blocks'', db_open ''blocks_hash'',
        db_open ''txs'', db_open ''spends'', db_open ''address'', handle_start success]"
    using start_lock_held [of "filesystem0 True" "''db''" facade0] b by simp
  have t3: "db_blocks_hash_l1 (data (fst (do_start filesystem_genesis facade0 ''db''))) = Some genesis_index"
    using start_lock_held [of filesystem_genesis "''db''" facade0] c by simp
  have t4: "handle_start success \<notin> set (snd (do_start filesystem_no_blocks facade0 ''db''))"
    using start_lock_held [of filesystem_no_blocks "''db''" facade0] d by simp
  from t1 t2 t3 t4 show ?thesis by simp
qed

text \<open>C8: \<open>stop\<close> delivers \<open>service_stopped\<close> with depth 0 and two empty block
  lists once to every registered reorganize handler, leaves none registered, and
  releases the five table handles.\<close>

theorem stop_notifies_subscribers:
  "snd (stop s) = map (\<lambda>h. handle_reorganize h service_stopped 0 [] []) (subscribers (data s))
   \<and> subscribers (data (fst (stop s))) = []
   \<and> db_blocks_l1 (data (fst (stop s))) = None
   \<and> db_blocks_hash_l1 (data (fst (stop s))) = None
   \<and> db_txs_l1 (data (fst (stop s))) = None
   \<and> db_spends_l1 (data (fst (stop s))) = None
   \<and> db_address_l1 (data (fst (stop s))) = None"
  by (simp add: stop_def relay_def)

text \<open>C2: after \<open>start\<close> on the object as constructed, whatever the directory
  holds, \<open>do_store\<close> of any block dereferences the null \<open>chain_\<close> member: no
  orphan outcome is delivered and no block is pooled or promoted.\<close>

theorem store_after_start_fails:
  "do_store x (fst (do_start fs facade0 prefix)) b = Inl null_dereference"
  by (simp add: do_store_def do_start_def initialize_def facade0_def Let_def
      split: option.splits prod.splits)

text \<open>C3: start succeeds on a directory whose hash table has block 7 at depth 0.
  \<open>do_store\<close> of block 7 on the started object does not deliver the duplicate
  outcome with depth 0: it dereferences the null \<open>chain_\<close> member before any
  handler is called.\<close>

theorem store_confirmed_after_start_fails:
  "snd (do_start filesystem_genesis facade0 ''db'') =
     [touch_file ''db/db-lock'', db_open ''blocks'', db_open ''blocks_hash'',
      db_open ''txs'', db_open ''spends'', db_open ''address'', handle_start success]
   \<and> find_index (data (fst (do_start filesystem_genesis facade0 ''db'')))
         (hash_block_header externals0 (header (block0 7))) = Inr 0
   \<and> do_store externals0 (fst (do_start filesystem_genesis facade0 ''db'')) (block0 7)
       = Inl null_dereference"
proof -
  have s: "do_start filesystem_genesis facade0 ''db'' =
     (facade0\<lparr>flock := Some ''db/db-lock'', common := Some (),
        data := chain0\<lparr>db_blocks_l1 := Some (\<lambda>d. None),
                       db_blocks_hash_l1 := Some genesis_index,
                       db_txs_l1 := Some (\<lambda>k. status_not_found),
                       db_spends_l1 := Some (\<lambda>k. status_not_found),
                       db_address_l1 := Some (\<lambda>k. status_not_found)\<rparr>\<rparr>,
      [touch_file ''db/db-lock'', db_open ''blocks'', db_open ''blocks_hash'',
       db_open ''txs'', db_open ''spends'', db_open ''address'', handle_start success])"
    by (simp add: do_start_def initialize_def Let_def filesystem_genesis_def filesystem0_def
        facade0_def)
  have f: "find_index (chain0\<lparr>db_blocks_l1 := Some (\<lambda>d. None),
                       db_blocks_hash_l1 := Some genesis_index,
                       db_txs_l1 := Some (\<lambda>k. status_not_found),
                       db_spends_l1 := Some (\<lambda>k. status_not_found),
                       db_address_l1 := Some (\<lambda>k. status_not_found)\<rparr>)
         (hash_block_header externals0 (header (block0 7))) = Inr 0"
    by (simp add: find_index_def genesis_index_def block0_def)
  have c: "chain (fst (do_start filesystem_genesis facade0 ''db'')) = None"
    unfolding s by (simp add: facade0_def)
  have d: "do_store externals0 (fst (do_start filesystem_genesis facade0 ''db'')) (block0 7)
       = Inl null_dereference"
    using c by (simp add: do_store_def Let_def)
  show ?thesis
    using f d by (simp add: s)
qed

end
